theory Spec2Isabelle
  imports Complex_Main
begin

section \<open>Python values used by \<open>model.py\<close>\<close>

text \<open>
  The exception of \<open>model.py\<close> that is modelled is the \<open>IndexError\<close> of a list subscript.
  Two others are left out, and with them the inputs that raise them: the
  \<open>OverflowError\<close> of line 85 for a hard bound too large for a float, and the
  \<open>AttributeError\<close> of line 166 for nodes without the attributes \<open>lat\<close> and \<open>lon\<close> (nodes
  are records with these fields here). Python integers are unbounded, so they are \<open>int\<close>;
  a subscript may be negative, and then counts from the end of the list.
\<close>

datatype error = IndexError

definition py_index :: "'a list \<Rightarrow> int \<Rightarrow> error + 'a" where
  "py_index xs i =
     (if 0 \<le> i \<and> i < int (length xs) then Inr (xs ! nat i)
      else if i < 0 \<and> - int (length xs) \<le> i then Inr (xs ! nat (int (length xs) + i))
      else Inl IndexError)"

text \<open>\<open>range(n)\<close> for a Python integer \<open>n\<close>: empty when \<open>n \<le> 0\<close>.\<close>

definition py_range :: "int \<Rightarrow> int list" where
  "py_range n = [0..n - 1]"

text \<open>
  \<open>int(x * 0.75)\<close> for an integer \<open>x\<close>: the product is truncated towards zero. The
  floating-point product is the exact value of \<open>3 * x / 4\<close> when \<open>3 * \<bar>x\<bar> < 2 ^ 53\<close>, and
  the definition is the code's value in that range only: beyond it the float product is
  rounded, and for a very large \<open>x\<close> the code raises \<open>OverflowError\<close>.
\<close>

definition int_times_075 :: "int \<Rightarrow> int" where
  "int_times_075 x = (if 0 \<le> x then (3 * x) div 4 else - ((3 * (- x)) div 4))"

section \<open>The routing library, as the code uses it\<close>

text \<open>
  The constraint solver is an external library. Its objects are records of the methods
  that \<open>model.py\<close> calls on them: the index manager translates route positions to logical
  nodes, the routing model knows the start and end position of every vehicle, and an
  assignment gives a value to every solver variable. \<open>model.NextVar(idx)\<close> is the
  variable holding the successor of position \<open>idx\<close>; \<open>CumulVar name idx\<close> is the
  cumulative value of the dimension \<open>name\<close> at position \<open>idx\<close>.
\<close>

datatype intvar = NextVar int | CumulVar string int

record assignment =
  Value :: "intvar \<Rightarrow> int"

record index_manager =
  IndexToNode :: "int \<Rightarrow> int"
  GetNumberOfVehicles :: int

record routing_model =
  Size :: int
  vehicles :: int
  Start :: "int \<Rightarrow> int"
  End :: "int \<Rightarrow> int"
  IsEnd :: "int \<Rightarrow> bool"

section \<open>\<open>get_dropped_nodes\<close>\<close>

fun dropped_loop :: "assignment \<Rightarrow> int list \<Rightarrow> int list \<Rightarrow> int list" where
  "dropped_loop a [] dropped = dropped"
| "dropped_loop a (idx # rest) dropped =
     (if Value a (NextVar idx) = idx then dropped_loop a rest (dropped @ [idx])
      else dropped_loop a rest dropped)"

definition get_dropped_nodes :: "routing_model \<Rightarrow> assignment \<Rightarrow> int list" where
  "get_dropped_nodes model a = dropped_loop a (py_range (Size model)) []"

section \<open>What \<open>solve\<close> hands to the library\<close>

text \<open>
  A transit callback is a Python closure that the library calls with route positions; a
  subscript inside it can raise. A dimension is the argument list of
  \<open>AddDimensionWithVehicleCapacity\<close>: callback, slack, one capacity per vehicle, whether
  the cumulative value starts at zero, and the name. A soft upper bound is the argument
  list of \<open>SetCumulVarSoftUpperBound\<close> together with the dimension it is called on.
\<close>

datatype transit =
    Binary "int \<Rightarrow> int \<Rightarrow> error + int"
  | Unary "int \<Rightarrow> error + int"

datatype dimension = Dimension transit int "int list" bool string

datatype strategy = PATH_CHEAPEST_ARC

record routing_setup =
  arc_cost_evaluator :: transit
  dimensions :: "dimension list"
  soft_upper_bounds :: "(string \<times> int \<times> int \<times> int) list"
  first_solution_strategy :: strategy
  time_limit_seconds :: int

text \<open>
  The three entry points of the library that \<open>solve\<close> calls. The search is opaque: it
  answers with an assignment or with nothing, as a function of the model it is given.
  The record describes calls of the library that return: a library that aborts or raises
  on what it is handed is not described, and nothing is said of such a call.
\<close>

record ortools =
  RoutingIndexManager :: "int \<Rightarrow> int \<Rightarrow> int \<Rightarrow> index_manager"
  RoutingModel :: "index_manager \<Rightarrow> routing_model"
  SolveWithParameters :: "routing_model \<Rightarrow> routing_setup \<Rightarrow> assignment option"

section \<open>\<open>solve\<close>: the configuration\<close>

record node =
  lat :: real
  lon :: real

record stop =
  stop_idx :: int
  stop_lat :: real
  stop_lon :: real
  stop_demand :: int
  stop_dist :: int

text \<open>The upper-case variables of \<open>solve\<close>, lines 64 to 90.\<close>

record config =
  NODES :: "node list"
  DISTANCE_MATRIX :: "int list list"
  NUM_NODES :: int
  DEMAND :: "int list"
  DEPOT_INDEX :: int
  VEHICLE_CAP :: int
  NUM_VEHICLES :: int
  VEHICLES :: "int list"
  DISTANCE_CONSTRAINT :: int
  SOFT_DISTANCE_CONSTRAINT :: int
  SOFT_DISTANCE_PENALTY :: int
  MAX_SEARCH_SECONDS :: int

text \<open>
  An optional argument is \<open>None\<close> when the caller omits it. \<open>not x\<close> holds for \<open>None\<close>
  and for \<open>0\<close>.
\<close>

fun py_not :: "int option \<Rightarrow> bool" where
  "py_not None = True"
| "py_not (Some n) = (n = 0)"

definition pad_demand :: "int list list \<Rightarrow> int list \<Rightarrow> int list" where
  "pad_demand distance_matrix demand =
     (if int (length distance_matrix) - 1 = int (length demand) then [0] @ demand
      else demand)"

definition resolve_num_vehicles :: "int option \<Rightarrow> int list \<Rightarrow> int" where
  "resolve_num_vehicles num_vehicles demand_padded =
     (if py_not num_vehicles then int (length (drop 1 demand_padded))
      else (case num_vehicles of Some n \<Rightarrow> n | None \<Rightarrow> 0))"

definition resolve_soft_distance :: "int \<Rightarrow> int option \<Rightarrow> int" where
  "resolve_soft_distance distance_constraint_int soft_distance_constrint_int =
     (if py_not soft_distance_constrint_int then int_times_075 distance_constraint_int
      else distance_constraint_int)"

definition configure ::
  "node list \<Rightarrow> int list list \<Rightarrow> int list \<Rightarrow> int \<Rightarrow> int \<Rightarrow> int option \<Rightarrow> int \<Rightarrow>
   int option \<Rightarrow> int \<Rightarrow> int \<Rightarrow> config" where
  "configure nodes distance_matrix demand depot_index vehicle_cap num_vehicles
     distance_constraint_int soft_distance_constrint_int soft_distance_penalty
     max_search_seconds =
     (let demand_padded = pad_demand distance_matrix demand;
          n_vehicles = resolve_num_vehicles num_vehicles demand_padded
      in \<lparr> NODES = nodes,
           DISTANCE_MATRIX = distance_matrix,
           NUM_NODES = int (length distance_matrix),
           DEMAND = demand_padded,
           DEPOT_INDEX = depot_index,
           VEHICLE_CAP = vehicle_cap,
           NUM_VEHICLES = n_vehicles,
           VEHICLES = map (\<lambda>i. vehicle_cap) (py_range n_vehicles),
           DISTANCE_CONSTRAINT = distance_constraint_int,
           SOFT_DISTANCE_CONSTRAINT =
             resolve_soft_distance distance_constraint_int soft_distance_constrint_int,
           SOFT_DISTANCE_PENALTY = soft_distance_penalty,
           MAX_SEARCH_SECONDS = max_search_seconds \<rparr>)"

section \<open>\<open>solve\<close>: the model\<close>

definition matrix_callback :: "index_manager \<Rightarrow> config \<Rightarrow> int \<Rightarrow> int \<Rightarrow> error + int" where
  "matrix_callback manager c i j =
     (let node_i = IndexToNode manager i;
          node_j = IndexToNode manager j
      in case py_index (DISTANCE_MATRIX c) node_i of
           Inl e \<Rightarrow> Inl e
         | Inr row \<Rightarrow> py_index row node_j)"

definition demand_callback :: "index_manager \<Rightarrow> config \<Rightarrow> int \<Rightarrow> error + int" where
  "demand_callback manager c i = py_index (DEMAND c) (IndexToNode manager i)"

text \<open>
  Lines 108 to 142: the arc cost, the dimensions \<open>Distance\<close> and \<open>Capacity\<close>, one soft
  upper bound on the distance at every vehicle's end position, and the search
  parameters. The capacities of \<open>Distance\<close> are built from the argument
  \<open>distance_constraint_int\<close>, which \<open>DISTANCE_CONSTRAINT\<close> holds.
\<close>

definition build_setup :: "index_manager \<Rightarrow> routing_model \<Rightarrow> config \<Rightarrow> routing_setup" where
  "build_setup manager model c =
     \<lparr> arc_cost_evaluator = Binary (matrix_callback manager c),
       dimensions =
         [Dimension (Binary (matrix_callback manager c)) 0
            (map (\<lambda>i. DISTANCE_CONSTRAINT c) (py_range (NUM_VEHICLES c))) True ''Distance'',
          Dimension (Unary (demand_callback manager c)) 0
            (map (\<lambda>cap. cap) (VEHICLES c)) True ''Capacity''],
       soft_upper_bounds =
         map (\<lambda>i. (''Distance'', End model i, SOFT_DISTANCE_CONSTRAINT c,
                    SOFT_DISTANCE_PENALTY c))
           (py_range (GetNumberOfVehicles manager)),
       first_solution_strategy = PATH_CHEAPEST_ARC,
       time_limit_seconds = MAX_SEARCH_SECONDS c \<rparr>"

section \<open>\<open>solve\<close>: decoding the assignment\<close>

text \<open>The body of the inner loop up to \<open>route.append\<close>, lines 165 to 172.\<close>

definition visit :: "index_manager \<Rightarrow> config \<Rightarrow> int \<Rightarrow> int \<Rightarrow> error + stop" where
  "visit manager c prev_node_index idx =
     (let node_index = IndexToNode manager idx
      in case py_index (NODES c) node_index of
           Inl e \<Rightarrow> Inl e
         | Inr nd \<Rightarrow>
            (case py_index (DEMAND c) node_index of
               Inl e \<Rightarrow> Inl e
             | Inr dem \<Rightarrow>
                (case py_index (DISTANCE_MATRIX c) prev_node_index of
                   Inl e \<Rightarrow> Inl e
                 | Inr row \<Rightarrow>
                    (case py_index row node_index of
                       Inl e \<Rightarrow> Inl e
                     | Inr dst \<Rightarrow>
                        Inr \<lparr> stop_idx = node_index, stop_lat = lat nd, stop_lon = lon nd,
                              stop_demand = dem, stop_dist = dst \<rparr>))))"

text \<open>
  The loop \<open>while True\<close>, lines 162 to 178. Its state is the position \<open>idx\<close>, the route so
  far, and the two variables \<open>prev_node_index\<close> and \<open>prev_node\<close>: the loop reads the first
  and assigns the second (which is unbound, here \<open>None\<close>, before the first assignment).
  The loop ends at an end position only, so the result is \<open>None\<close> when it runs forever.
\<close>

partial_function (option) walk ::
  "index_manager \<Rightarrow> routing_model \<Rightarrow> assignment \<Rightarrow> config \<Rightarrow> int \<Rightarrow> int option \<Rightarrow> int \<Rightarrow>
   stop list \<Rightarrow> (error + stop list) option" where
  "walk manager model a c prev_node_index prev_node idx route =
     (case visit manager c prev_node_index idx of
        Inl e \<Rightarrow> Some (Inl e)
      | Inr s \<Rightarrow>
         if IsEnd model idx then Some (Inr (route @ [s]))
         else walk manager model a c prev_node_index (Some (IndexToNode manager idx))
                (Value a (NextVar idx)) (route @ [s]))"

text \<open>The loop over the vehicles, lines 152 to 180.\<close>

fun routes_loop ::
  "index_manager \<Rightarrow> routing_model \<Rightarrow> assignment \<Rightarrow> config \<Rightarrow> int list \<Rightarrow> stop list list \<Rightarrow>
   (error + stop list list) option" where
  "routes_loop manager model a c [] solution = Some (Inr solution)"
| "routes_loop manager model a c (route_number # rest) solution =
     (let idx = Start model route_number
      in if IsEnd model (Value a (NextVar idx)) then routes_loop manager model a c rest solution
         else (case walk manager model a c (IndexToNode manager idx) None idx [] of
                 None \<Rightarrow> None
               | Some (Inl e) \<Rightarrow> Some (Inl e)
               | Some (Inr route) \<Rightarrow>
                   routes_loop manager model a c rest (solution @ [route])))"

definition decode ::
  "index_manager \<Rightarrow> routing_model \<Rightarrow> assignment \<Rightarrow> config \<Rightarrow> (error + stop list list) option"
  where
  "decode manager model a c = routes_loop manager model a c (py_range (vehicles model)) []"

section \<open>\<open>solve\<close>\<close>

text \<open>
  \<open>solve\<close> returns the list of routes, or Python's \<open>None\<close> when the search gave no
  assignment (the function then falls off its end). The outer \<open>option\<close> is \<open>None\<close> when the
  call does not return.
\<close>

datatype outcome = NoSolution | Solution "stop list list"

definition solve ::
  "ortools \<Rightarrow> node list \<Rightarrow> int list list \<Rightarrow> int list \<Rightarrow> int \<Rightarrow> int \<Rightarrow> int option \<Rightarrow> int \<Rightarrow>
   int option \<Rightarrow> int \<Rightarrow> int \<Rightarrow> (error + outcome) option" where
  "solve lib nodes distance_matrix demand depot_index vehicle_cap num_vehicles
     distance_constraint_int soft_distance_constrint_int soft_distance_penalty
     max_search_seconds =
     (let c = configure nodes distance_matrix demand depot_index vehicle_cap num_vehicles
                distance_constraint_int soft_distance_constrint_int soft_distance_penalty
                max_search_seconds;
          manager = RoutingIndexManager lib (NUM_NODES c) (NUM_VEHICLES c) depot_index;
          model = RoutingModel lib manager
      in case SolveWithParameters lib model (build_setup manager model c) of
           None \<Rightarrow> Some (Inr NoSolution)
         | Some a \<Rightarrow>
            (case decode manager model a c of
               None \<Rightarrow> None
             | Some (Inl e) \<Rightarrow> Some (Inl e)
             | Some (Inr solution) \<Rightarrow> Some (Inr (Solution solution))))"

declare walk.simps [code]

section \<open>A small instance of the library\<close>

text \<open>
  A problem with three nodes, as the library lays it out for a single depot: the two
  customers are the positions 0 and 1, vehicle \<open>v\<close> starts at position \<open>2 + v\<close> and ends
  at position \<open>2 + V + v\<close>, where \<open>V\<close> is the number of vehicles, and all start and end
  positions are the depot. The search answers with a fixed result.
\<close>

definition example_manager :: "int \<Rightarrow> int \<Rightarrow> int \<Rightarrow> index_manager" where
  "example_manager n v depot =
     \<lparr> IndexToNode =
         (\<lambda>i. if 0 \<le> i \<and> i < 2 then (if i < depot then i else i + 1) else depot),
       GetNumberOfVehicles = v \<rparr>"

definition example_model :: "index_manager \<Rightarrow> routing_model" where
  "example_model manager =
     \<lparr> Size = 2 + GetNumberOfVehicles manager,
       vehicles = GetNumberOfVehicles manager,
       Start = (\<lambda>v. 2 + v),
       End = (\<lambda>v. 2 + GetNumberOfVehicles manager + v),
       IsEnd = (\<lambda>i. 2 + GetNumberOfVehicles manager \<le> i) \<rparr>"

definition example_lib :: "assignment option \<Rightarrow> ortools" where
  "example_lib found =
     \<lparr> RoutingIndexManager = example_manager,
       RoutingModel = example_model,
       SolveWithParameters = (\<lambda>model setup. found) \<rparr>"

text \<open>
  With three vehicles: vehicle 0 drives depot, node 1, node 2, depot (positions 2, 0, 1,
  5); vehicles 1 and 2 stay at the depot (positions 3 to 6 and 4 to 7). The cumulative
  demand is 0, 0, 10 and 20 along the route of vehicle 0.
\<close>

definition example_assignment :: assignment where
  "example_assignment =
     \<lparr> Value = (\<lambda>var. case var of
          NextVar i \<Rightarrow> (if i = 2 then 0 else if i = 0 then 1 else if i = 1 then 5
                        else if i = 3 then 6 else if i = 4 then 7 else i)
        | CumulVar name i \<Rightarrow> (if i = 1 then 10 else if i = 5 then 20 else 0)) \<rparr>"

definition example_nodes :: "node list" where
  "example_nodes = [\<lparr>lat = 0, lon = 0\<rparr>, \<lparr>lat = 1, lon = 0\<rparr>, \<lparr>lat = 0, lon = 1\<rparr>]"

definition example_matrix :: "int list list" where
  "example_matrix = [ [0, 5, 7], [5, 0, 2], [7, 2, 0] ]"

definition example_route :: "stop list" where
  "example_route =
     [\<lparr>stop_idx = 0, stop_lat = 0, stop_lon = 0, stop_demand = 0, stop_dist = 0\<rparr>,
      \<lparr>stop_idx = 1, stop_lat = 1, stop_lon = 0, stop_demand = 10, stop_dist = 5\<rparr>,
      \<lparr>stop_idx = 2, stop_lat = 0, stop_lon = 1, stop_demand = 10, stop_dist = 7\<rparr>,
      \<lparr>stop_idx = 0, stop_lat = 0, stop_lon = 0, stop_demand = 0, stop_dist = 0\<rparr>]"

section \<open>What the library guarantees\<close>

text \<open>
  The properties below are those of the library's objects, not of \<open>model.py\<close>; the
  theorems about \<open>solve\<close> that need them take them as hypotheses.

  An index manager built for a single depot maps the start position of every vehicle, and
  every end position, to the depot; the end position of a vehicle is an end position and
  its start position is not.
\<close>

definition single_depot :: "index_manager \<Rightarrow> routing_model \<Rightarrow> int \<Rightarrow> bool" where
  "single_depot manager model depot \<longleftrightarrow>
     (\<forall>v. 0 \<le> v \<and> v < vehicles model \<longrightarrow>
        IndexToNode manager (Start model v) = depot \<and> \<not> IsEnd model (Start model v) \<and>
        IsEnd model (End model v)) \<and>
     (\<forall>idx. IsEnd model idx \<longrightarrow> IndexToNode manager idx = depot)"

text \<open>
  The positions on the route of vehicle \<open>v\<close>: its start position, and the successor of
  every position on the route that is not an end position.
\<close>

inductive on_route :: "routing_model \<Rightarrow> assignment \<Rightarrow> int \<Rightarrow> int \<Rightarrow> bool"
  for model :: routing_model and a :: assignment and v :: int where
    at_start: "on_route model a v (Start model v)"
  | at_next: "on_route model a v idx \<Longrightarrow> \<not> IsEnd model idx \<Longrightarrow>
       on_route model a v (Value a (NextVar idx))"

text \<open>
  What the library makes of a dimension, for any dimension it is handed. A binary transit
  callback is called with a position and its successor, a unary one with the position
  alone. An assignment respects a dimension when the dimension has one capacity per
  vehicle and, on the route of every vehicle: the cumulative value is 0 at the start if
  the dimension says so, it never exceeds the capacity of the vehicle, and from a
  position to its successor it grows by the transit at the position left and by a slack
  between 0 and the slack of the dimension.
\<close>

fun transit_value :: "transit \<Rightarrow> int \<Rightarrow> int \<Rightarrow> error + int" where
  "transit_value (Binary callback) i j = callback i j"
| "transit_value (Unary callback) i j = callback i"

fun dimension_name :: "dimension \<Rightarrow> string" where
  "dimension_name (Dimension transit slack capacities start_zero name) = name"

fun respects_dimension :: "routing_model \<Rightarrow> assignment \<Rightarrow> dimension \<Rightarrow> bool" where
  "respects_dimension model a (Dimension transit slack capacities start_zero name) \<longleftrightarrow>
     int (length capacities) = vehicles model \<and>
     (\<forall>v idx. 0 \<le> v \<and> v < vehicles model \<and> on_route model a v idx \<longrightarrow>
        (start_zero \<and> idx = Start model v \<longrightarrow> Value a (CumulVar name idx) = 0) \<and>
        Value a (CumulVar name idx) \<le> capacities ! nat v \<and>
        (\<not> IsEnd model idx \<longrightarrow>
           (\<exists>d s. transit_value transit idx (Value a (NextVar idx)) = Inr d \<and>
                  0 \<le> s \<and> s \<le> slack \<and>
                  Value a (CumulVar name (Value a (NextVar idx))) =
                    Value a (CumulVar name idx) + d + s)))"

text \<open>
  An assignment respects the dimension called \<open>name\<close> of a model when it respects every
  dimension that has been registered under that name.
\<close>

definition respects_named :: "routing_model \<Rightarrow> assignment \<Rightarrow> routing_setup \<Rightarrow> string \<Rightarrow> bool"
  where
  "respects_named model a setup name \<longleftrightarrow>
     (\<forall>d \<in> set (dimensions setup). dimension_name d = name \<longrightarrow> respects_dimension model a d)"

text \<open>
  The routes of an assignment do not share customers: the first position a vehicle
  visits after its start, when it is not an end, stands for a node of the matrix other
  than the depot, and two vehicles do not visit the same node first.
\<close>

definition first_customers_distinct ::
  "index_manager \<Rightarrow> routing_model \<Rightarrow> assignment \<Rightarrow> int \<Rightarrow> int \<Rightarrow> bool" where
  "first_customers_distinct manager model a n depot \<longleftrightarrow>
     0 \<le> depot \<and> depot < n \<and>
     (\<forall>v. 0 \<le> v \<and> v < vehicles model \<and> \<not> IsEnd model (Value a (NextVar (Start model v))) \<longrightarrow>
        0 \<le> IndexToNode manager (Value a (NextVar (Start model v))) \<and>
        IndexToNode manager (Value a (NextVar (Start model v))) < n \<and>
        IndexToNode manager (Value a (NextVar (Start model v))) \<noteq> depot) \<and>
     (\<forall>v w. 0 \<le> v \<and> v < vehicles model \<and> 0 \<le> w \<and> w < vehicles model \<and>
        \<not> IsEnd model (Value a (NextVar (Start model v))) \<and>
        \<not> IsEnd model (Value a (NextVar (Start model w))) \<and>
        IndexToNode manager (Value a (NextVar (Start model v))) =
          IndexToNode manager (Value a (NextVar (Start model w))) \<longrightarrow> v = w)"

text \<open>The vehicles that leave the depot, among the vehicles \<open>vs\<close>.\<close>

definition used_vehicles :: "routing_model \<Rightarrow> assignment \<Rightarrow> int list \<Rightarrow> int list" where
  "used_vehicles model a vs =
     filter (\<lambda>v. \<not> IsEnd model (Value a (NextVar (Start model v)))) vs"

section \<open>Properties of \<open>get_dropped_nodes\<close>\<close>

lemma dropped_loop_filter:
  "dropped_loop a xs acc = acc @ filter (\<lambda>idx. Value a (NextVar idx) = idx) xs"
  by (induction xs arbitrary: acc) simp_all

text \<open>
  C9. \<open>get_dropped_nodes\<close> returns exactly the positions \<open>idx\<close> of \<open>0 .. model.Size() - 1\<close>
  whose assigned successor is \<open>idx\<close> itself, each once, in increasing order of position.
\<close>

theorem get_dropped_nodes_exact:
  "get_dropped_nodes model a =
     filter (\<lambda>idx. Value a (NextVar idx) = idx) [0..Size model - 1]
   \<and> set (get_dropped_nodes model a) =
       {idx. 0 \<le> idx \<and> idx \<le> Size model - 1 \<and> Value a (NextVar idx) = idx}
   \<and> sorted (get_dropped_nodes model a)
   \<and> distinct (get_dropped_nodes model a)"
  by (auto simp: get_dropped_nodes_def py_range_def dropped_loop_filter sorted_wrt_filter)

section \<open>The inner loop\<close>

lemmas walk_induct = walk.raw_induct [rotated 1, consumes 1, case_names step]

lemma visit_stop:
  "visit manager c p idx = Inr s \<Longrightarrow>
     stop_idx s = IndexToNode manager idx \<and>
     demand_callback manager c idx = Inr (stop_demand s)"
  by (auto simp: visit_def demand_callback_def Let_def split: sum.splits)

lemma visit_dist:
  "visit manager c p idx = Inr s \<Longrightarrow>
     \<exists>row. py_index (DISTANCE_MATRIX c) p = Inr row \<and>
           py_index row (IndexToNode manager idx) = Inr (stop_dist s)"
  by (auto simp: visit_def Let_def split: sum.splits)

lemma walk_unfold:
  assumes "walk manager model a c p pn idx route = Some (Inr res)"
  shows "\<exists>s. visit manager c p idx = Inr s \<and>
           (if IsEnd model idx then res = route @ [s]
            else walk manager model a c p (Some (IndexToNode manager idx))
                   (Value a (NextVar idx)) (route @ [s]) = Some (Inr res))"
  using assms by (subst (asm) walk.simps) (auto split: sum.splits if_splits)

lemma walk_extends:
  "walk manager model a c p pn idx route = Some y \<Longrightarrow> y = Inr res \<Longrightarrow>
   \<exists>stops. res = route @ stops \<and> stops \<noteq> []"
proof (induction arbitrary: res rule: walk_induct)
  case (step walk manager model a c p pn idx route y)
  then show ?case
    by (fastforce split: sum.splits if_splits)
qed

lemma walk_first:
  assumes "walk manager model a c p pn idx [] = Some (Inr res)"
  shows "res \<noteq> [] \<and> visit manager c p idx = Inr (hd res)"
proof -
  from walk_unfold [OF assms] obtain s where s: "visit manager c p idx = Inr s"
    and r: "if IsEnd model idx then res = [] @ [s]
            else walk manager model a c p (Some (IndexToNode manager idx))
                   (Value a (NextVar idx)) ([] @ [s]) = Some (Inr res)"
    by blast
  show ?thesis
  proof (cases "IsEnd model idx")
    case True
    with r s show ?thesis by simp
  next
    case False
    with r have "walk manager model a c p (Some (IndexToNode manager idx))
                   (Value a (NextVar idx)) ([] @ [s]) = Some (Inr res)" by simp
    from walk_extends [OF this refl] obtain stops where "res = ([] @ [s]) @ stops" by blast
    with s show ?thesis by simp
  qed
qed

lemma walk_last:
  "walk manager model a c p pn idx route = Some y \<Longrightarrow> y = Inr res \<Longrightarrow>
   \<exists>e. IsEnd model e \<and> visit manager c p e = Inr (last res)"
proof (induction arbitrary: res rule: walk_induct)
  case (step walk manager model a c p pn idx route y)
  then show ?case
    by (fastforce split: sum.splits if_splits)
qed

lemma walk_three_stops:
  assumes "walk manager model a c p pn idx [] = Some (Inr res)"
    and "\<not> IsEnd model idx" and "\<not> IsEnd model (Value a (NextVar idx))"
  shows "3 \<le> length res"
proof -
  from walk_unfold [OF assms(1)] assms(2) obtain s where
    w1: "walk manager model a c p (Some (IndexToNode manager idx))
           (Value a (NextVar idx)) ([] @ [s]) = Some (Inr res)"
    by auto
  from walk_unfold [OF w1] assms(3) obtain s' where
    w2: "walk manager model a c p (Some (IndexToNode manager (Value a (NextVar idx))))
           (Value a (NextVar (Value a (NextVar idx)))) (([] @ [s]) @ [s']) = Some (Inr res)"
    by auto
  from walk_extends [OF w2 refl] obtain stops where
    "res = (([] @ [s]) @ [s']) @ stops" and "stops \<noteq> []" by blast
  then show ?thesis by (cases stops) simp_all
qed

lemma walk_capacity:
  "walk manager model a c p pn idx route = Some y \<Longrightarrow> y = Inr res \<Longrightarrow>
   on_route model a v idx \<Longrightarrow>
   (\<forall>i. on_route model a v i \<longrightarrow>
      Value a (CumulVar name i) \<le> cap \<and>
      (\<not> IsEnd model i \<longrightarrow>
         (\<exists>d. demand_callback manager c i = Inr d \<and>
              Value a (CumulVar name (Value a (NextVar i))) =
                Value a (CumulVar name i) + d))) \<Longrightarrow>
   \<exists>stops. res = route @ stops \<and> stops \<noteq> [] \<and>
     Value a (CumulVar name idx) + sum_list (map stop_demand (butlast stops)) \<le> cap"
proof (induction arbitrary: res rule: walk_induct)
  case (step walk manager model a c p pn idx route y)
  note on = step.prems(2) and inv = step.prems(3)
  show ?case
  proof (cases "visit manager c p idx")
    case (Inl e)
    with step show ?thesis by simp
  next
    case (Inr s)
    note s = this
    show ?thesis
    proof (cases "IsEnd model idx")
      case True
      with s step have "res = route @ [s]" by simp
      moreover have "Value a (CumulVar name idx) \<le> cap"
        using on inv by blast
      ultimately show ?thesis by simp
    next
      case False
      with s step.hyps have w: "walk manager model a c p (Some (IndexToNode manager idx))
          (Value a (NextVar idx)) (route @ [s]) = Some y"
        by simp
      from on False have on': "on_route model a v (Value a (NextVar idx))"
        by (rule on_route.at_next)
      from step.IH [OF w step.prems(1) on' inv] obtain stops where
        st: "res = (route @ [s]) @ stops" "stops \<noteq> []"
        "Value a (CumulVar name (Value a (NextVar idx)))
           + sum_list (map stop_demand (butlast stops)) \<le> cap"
        by blast
      have "demand_callback manager c idx = Inr (stop_demand s)"
        using visit_stop [OF s] by simp
      with False on inv have
        "Value a (CumulVar name (Value a (NextVar idx))) =
           Value a (CumulVar name idx) + stop_demand s"
        by fastforce
      with st have "res = route @ (s # stops) \<and> s # stops \<noteq> [] \<and>
        Value a (CumulVar name idx) + sum_list (map stop_demand (butlast (s # stops)))
          \<le> cap"
        by simp
      then show ?thesis by blast
    qed
  qed
qed

text \<open>
  What respecting the dimension \<open>Capacity\<close>, as \<open>solve\<close> registers it, says of a route.
\<close>

lemma respects_registered_capacity:
  assumes "respects_named model a (build_setup manager model c) ''Capacity''"
    and "VEHICLES c = replicate (nat (NUM_VEHICLES c)) cap"
    and "0 \<le> v" and "v < vehicles model"
  shows "Value a (CumulVar ''Capacity'' (Start model v)) = 0"
    and "\<forall>i. on_route model a v i \<longrightarrow>
      Value a (CumulVar ''Capacity'' i) \<le> cap \<and>
      (\<not> IsEnd model i \<longrightarrow>
         (\<exists>d. demand_callback manager c i = Inr d \<and>
              Value a (CumulVar ''Capacity'' (Value a (NextVar i))) =
                Value a (CumulVar ''Capacity'' i) + d))"
proof -
  from assms(1) have rd: "respects_dimension model a
      (Dimension (Unary (demand_callback manager c)) 0 (VEHICLES c) True ''Capacity'')"
    by (simp add: respects_named_def build_setup_def del: respects_dimension.simps)
  note rd' = rd [unfolded respects_dimension.simps transit_value.simps]
  from rd' have len: "int (length (VEHICLES c)) = vehicles model" by blast
  with assms(3,4) have "nat v < length (VEHICLES c)" by linarith
  with assms(2) have nth: "VEHICLES c ! nat v = cap" by simp
  from rd' assms(3,4) have all: "\<And>i. on_route model a v i \<Longrightarrow>
      (i = Start model v \<longrightarrow> Value a (CumulVar ''Capacity'' i) = 0) \<and>
      Value a (CumulVar ''Capacity'' i) \<le> VEHICLES c ! nat v \<and>
      (\<not> IsEnd model i \<longrightarrow>
         (\<exists>d s. demand_callback manager c i = Inr d \<and> 0 \<le> s \<and> s \<le> 0 \<and>
            Value a (CumulVar ''Capacity'' (Value a (NextVar i))) =
              Value a (CumulVar ''Capacity'' i) + d + s))"
    by blast
  from all [OF on_route.at_start] show "Value a (CumulVar ''Capacity'' (Start model v)) = 0"
    by simp
  show "\<forall>i. on_route model a v i \<longrightarrow>
      Value a (CumulVar ''Capacity'' i) \<le> cap \<and>
      (\<not> IsEnd model i \<longrightarrow>
         (\<exists>d. demand_callback manager c i = Inr d \<and>
              Value a (CumulVar ''Capacity'' (Value a (NextVar i))) =
                Value a (CumulVar ''Capacity'' i) + d))"
  proof (intro allI impI conjI)
    fix i
    assume "on_route model a v i"
    from all [OF this] nth show "Value a (CumulVar ''Capacity'' i) \<le> cap" by simp
  next
    fix i
    assume "on_route model a v i" and "\<not> IsEnd model i"
    with all [of i] obtain d s where "demand_callback manager c i = Inr d"
      "0 \<le> s" "s \<le> 0"
      "Value a (CumulVar ''Capacity'' (Value a (NextVar i))) =
         Value a (CumulVar ''Capacity'' i) + d + s"
      by blast
    then show "\<exists>d. demand_callback manager c i = Inr d \<and>
        Value a (CumulVar ''Capacity'' (Value a (NextVar i))) =
          Value a (CumulVar ''Capacity'' i) + d"
      by auto
  qed
qed

section \<open>The loop over the vehicles\<close>

lemma routes_loop_routes:
  "routes_loop manager model a c vs sol = Some (Inr res) \<Longrightarrow>
   \<exists>routes. res = sol @ routes \<and>
     list_all2 (\<lambda>v route. walk manager model a c (IndexToNode manager (Start model v)) None
                  (Start model v) [] = Some (Inr route))
       (used_vehicles model a vs) routes"
proof (induction vs arbitrary: sol)
  case Nil
  then show ?case by (simp add: used_vehicles_def)
next
  case (Cons v vs)
  show ?case
  proof (cases "IsEnd model (Value a (NextVar (Start model v)))")
    case True
    with Cons.prems have "routes_loop manager model a c vs sol = Some (Inr res)"
      by simp
    from Cons.IH [OF this] True show ?thesis by (simp add: used_vehicles_def)
  next
    case False
    with Cons.prems obtain route where
      w: "walk manager model a c (IndexToNode manager (Start model v)) None (Start model v) []
            = Some (Inr route)"
      and r: "routes_loop manager model a c vs (sol @ [route]) = Some (Inr res)"
      by (auto simp: Let_def split: option.splits sum.splits)
    from Cons.IH [OF r] obtain routes where
      "res = (sol @ [route]) @ routes"
      "list_all2 (\<lambda>v route. walk manager model a c (IndexToNode manager (Start model v)) None
                  (Start model v) [] = Some (Inr route))
         (used_vehicles model a vs) routes"
      by blast
    with w False have "res = sol @ (route # routes) \<and>
      list_all2 (\<lambda>v route. walk manager model a c (IndexToNode manager (Start model v)) None
                  (Start model v) [] = Some (Inr route))
         (used_vehicles model a (v # vs)) (route # routes)"
      by (simp add: used_vehicles_def)
    then show ?thesis by blast
  qed
qed

lemma decode_routes:
  assumes "decode manager model a c = Some (Inr solution)"
  shows "list_all2 (\<lambda>v route. walk manager model a c (IndexToNode manager (Start model v)) None
                  (Start model v) [] = Some (Inr route))
       (used_vehicles model a (py_range (vehicles model))) solution"
  using routes_loop_routes [of manager model a c "py_range (vehicles model)" "[]" solution] assms
  by (simp add: decode_def)

lemma decode_route_walk:
  assumes "decode manager model a c = Some (Inr solution)" and "route \<in> set solution"
  shows "\<exists>v. 0 \<le> v \<and> v < vehicles model \<and>
           \<not> IsEnd model (Value a (NextVar (Start model v))) \<and>
           walk manager model a c (IndexToNode manager (Start model v)) None
                  (Start model v) [] = Some (Inr route)"
proof -
  from assms(2) obtain i where i: "i < length solution" "solution ! i = route"
    by (auto simp: in_set_conv_nth)
  let ?used = "used_vehicles model a (py_range (vehicles model))"
  from decode_routes [OF assms(1)] i have
    len: "i < length ?used" and
    w: "walk manager model a c (IndexToNode manager (Start model (?used ! i))) None
                  (Start model (?used ! i)) [] = Some (Inr route)"
    by (auto simp: list_all2_conv_all_nth)
  from len have "?used ! i \<in> set ?used" by simp
  then have "0 \<le> ?used ! i \<and> ?used ! i < vehicles model \<and>
     \<not> IsEnd model (Value a (NextVar (Start model (?used ! i))))"
    by (auto simp: used_vehicles_def py_range_def)
  with w show ?thesis by blast
qed

lemma solve_success:
  assumes "solve lib nodes distance_matrix demand depot_index vehicle_cap num_vehicles
             distance_constraint_int soft_distance_constrint_int soft_distance_penalty
             max_search_seconds = Some (Inr (Solution solution))"
    and "c = configure nodes distance_matrix demand depot_index vehicle_cap num_vehicles
             distance_constraint_int soft_distance_constrint_int soft_distance_penalty
             max_search_seconds"
    and "manager = RoutingIndexManager lib (NUM_NODES c) (NUM_VEHICLES c) depot_index"
    and "model = RoutingModel lib manager"
  shows "\<exists>a. SolveWithParameters lib model (build_setup manager model c) = Some a \<and>
             decode manager model a c = Some (Inr solution)"
  using assms by (auto simp: solve_def Let_def split: option.splits sum.splits)

lemma used_vehicles_count:
  assumes "first_customers_distinct manager model a n depot"
  shows "int (length (used_vehicles model a (py_range (vehicles model)))) \<le> n - 1"
proof -
  let ?used = "used_vehicles model a (py_range (vehicles model))"
  let ?f = "\<lambda>v. IndexToNode manager (Value a (NextVar (Start model v)))"
  have mem: "\<And>v. v \<in> set ?used \<Longrightarrow>
      0 \<le> v \<and> v < vehicles model \<and> \<not> IsEnd model (Value a (NextVar (Start model v)))"
    by (auto simp: used_vehicles_def py_range_def)
  have dist: "distinct ?used"
    by (simp add: used_vehicles_def py_range_def)
  have inj: "inj_on ?f (set ?used)"
  proof (rule inj_onI)
    fix v w
    assume "v \<in> set ?used" "w \<in> set ?used" "?f v = ?f w"
    with mem [of v] mem [of w] assms show "v = w"
      unfolding first_customers_distinct_def by blast
  qed
  have sub: "?f ` set ?used \<subseteq> {0..n - 1} - {depot}"
  proof
    fix x
    assume "x \<in> ?f ` set ?used"
    then obtain v where "v \<in> set ?used" "x = ?f v" by blast
    with mem [of v] assms show "x \<in> {0..n - 1} - {depot}"
      unfolding first_customers_distinct_def by auto
  qed
  from assms have d: "0 \<le> depot" "depot < n"
    by (simp_all add: first_customers_distinct_def)
  then have "card ({0..n - 1} - {depot}) = nat n - 1"
    by simp
  moreover have "card (?f ` set ?used) \<le> card ({0..n - 1} - {depot})"
    by (rule card_mono [OF _ sub]) simp
  moreover have "card (?f ` set ?used) = length ?used"
    using inj dist by (simp add: card_image distinct_card)
  ultimately have "length ?used \<le> nat n - 1" by simp
  with d show ?thesis by linarith
qed

lemma map_py_range_const: "map (\<lambda>i. x) (py_range n) = replicate (nat n) x"
  by (simp add: py_range_def map_replicate_const)

lemma pad_demand_prepended:
  assumes "int (length demand) = int (length distance_matrix) - 1"
  shows "pad_demand distance_matrix demand = 0 # demand"
    and "pad_demand distance_matrix (0 # demand) = 0 # demand"
  using assms by (simp_all add: pad_demand_def)

section \<open>The small instance, evaluated\<close>

lemma example_lib_simps:
  "RoutingIndexManager (example_lib found) n v d = example_manager n v d"
  "RoutingModel (example_lib found) m = example_model m"
  "SolveWithParameters (example_lib found) model setup = found"
  by (simp_all add: example_lib_def)

lemma example_solve:
  "solve (example_lib (Some example_assignment)) example_nodes example_matrix [10, 10] 0 26
     (Some 3) 100000 None 100000 5 =
   Some (Inr (Solution [example_route]))"
  by (simp add: solve_def configure_def pad_demand_def resolve_num_vehicles_def
      resolve_soft_distance_def example_lib_def example_manager_def example_model_def
      example_assignment_def example_nodes_def example_matrix_def decode_def py_range_def
      upto.simps walk.simps visit_def py_index_def build_setup_def Let_def example_route_def)

lemma example_config:
  "NUM_NODES (configure example_nodes example_matrix [10, 10] 0 26 (Some 3) 100000 None 100000 5) = 3
   \<and> NUM_VEHICLES (configure example_nodes example_matrix [10, 10] 0 26 (Some 3) 100000 None 100000 5) = 3
   \<and> DEMAND (configure example_nodes example_matrix [10, 10] 0 26 (Some 3) 100000 None 100000 5) = [0, 10, 10]
   \<and> VEHICLE_CAP (configure example_nodes example_matrix [10, 10] 0 26 (Some 3) 100000 None 100000 5) = 26"
  by (simp add: configure_def pad_demand_def resolve_num_vehicles_def example_matrix_def Let_def)

lemma example_single_depot:
  "single_depot (example_manager 3 3 0) (example_model (example_manager 3 3 0)) 0"
  by (simp add: single_depot_def example_manager_def example_model_def)

lemma example_on_route:
  assumes "on_route (example_model (example_manager 3 3 0)) example_assignment v idx"
    and "0 \<le> v" and "v < 3"
  shows "(v = 0 \<and> (idx = 2 \<or> idx = 0 \<or> idx = 1 \<or> idx = 5)) \<or>
         (v = 1 \<and> (idx = 3 \<or> idx = 6)) \<or> (v = 2 \<and> (idx = 4 \<or> idx = 7))"
  using assms
proof (induction rule: on_route.induct)
  case at_start
  then have "v = 0 \<or> v = 1 \<or> v = 2" by linarith
  then show ?case by (auto simp: example_model_def example_manager_def)
next
  case (at_next idx)
  then show ?case
    by (auto simp: example_model_def example_manager_def example_assignment_def)
qed

lemma example_respects_capacity:
  "respects_named (example_model (example_manager 3 3 0)) example_assignment
     (build_setup (example_manager 3 3 0) (example_model (example_manager 3 3 0))
        (configure example_nodes example_matrix [10, 10] 0 26 (Some 3) 100000 None 100000 5))
     ''Capacity''"
proof -
  let ?c = "configure example_nodes example_matrix [10, 10] 0 26 (Some 3) 100000 None 100000 5"
  let ?model = "example_model (example_manager 3 3 0)"
  have veh: "VEHICLES ?c = [26, 26, 26]"
    by (simp add: configure_def resolve_num_vehicles_def Let_def py_range_def upto.simps)
  have nv: "vehicles ?model = 3"
    by (simp add: example_model_def example_manager_def)
  have "respects_dimension ?model example_assignment
      (Dimension (Unary (demand_callback (example_manager 3 3 0) ?c)) 0 [26, 26, 26] True
         ''Capacity'')"
    unfolding respects_dimension.simps nv
  proof (intro conjI allI impI)
    show "int (length [26, 26, 26 :: int]) = 3" by simp
  next
    fix v idx
    assume h: "0 \<le> v \<and> v < 3 \<and> on_route ?model example_assignment v idx"
    then show "Value example_assignment (CumulVar ''Capacity'' idx) \<le> [26, 26, 26] ! nat v"
      using example_on_route [of v idx]
      by (auto simp: example_assignment_def)
  next
    fix v idx
    assume h: "0 \<le> v \<and> v < 3 \<and> on_route ?model example_assignment v idx"
      and "True \<and> idx = Start ?model v"
    then show "Value example_assignment (CumulVar ''Capacity'' idx) = 0"
      using example_on_route [of v idx]
      by (auto simp: example_assignment_def example_model_def example_manager_def)
  next
    fix v idx
    assume h: "0 \<le> v \<and> v < 3 \<and> on_route ?model example_assignment v idx"
      and ne: "\<not> IsEnd ?model idx"
    from ne have "idx < 5" by (simp add: example_model_def example_manager_def)
    with h example_on_route [of v idx] consider "idx = 0" | "idx = 1" | "idx = 2" | "idx = 3"
      | "idx = 4"
      by auto
    then have "\<exists>d. transit_value (Unary (demand_callback (example_manager 3 3 0) ?c)) idx
            (Value example_assignment (NextVar idx)) = Inr d \<and>
          Value example_assignment (CumulVar ''Capacity'' (Value example_assignment (NextVar idx)))
            = Value example_assignment (CumulVar ''Capacity'' idx) + d + 0"
      by cases (simp_all add: demand_callback_def example_config example_manager_def
          example_assignment_def py_index_def)
    then show "\<exists>d s. transit_value (Unary (demand_callback (example_manager 3 3 0) ?c)) idx
            (Value example_assignment (NextVar idx)) = Inr d \<and> 0 \<le> s \<and> s \<le> 0 \<and>
          Value example_assignment (CumulVar ''Capacity'' (Value example_assignment (NextVar idx)))
            = Value example_assignment (CumulVar ''Capacity'' idx) + d + s"
      by (metis order_refl)
  qed
  then show ?thesis
    by (simp add: respects_named_def build_setup_def veh del: respects_dimension.simps)
qed

lemma example_first_customers_distinct:
  "first_customers_distinct (example_manager 3 3 0) (example_model (example_manager 3 3 0))
     example_assignment 3 0"
  unfolding first_customers_distinct_def
proof (intro conjI allI impI)
  fix v :: int
  assume "0 \<le> v \<and> v < vehicles (example_model (example_manager 3 3 0)) \<and>
    \<not> IsEnd (example_model (example_manager 3 3 0))
        (Value example_assignment (NextVar (Start (example_model (example_manager 3 3 0)) v)))"
  then have "v = 0"
    by (auto simp: example_model_def example_manager_def example_assignment_def
        split: if_splits)
  then show "0 \<le> IndexToNode (example_manager 3 3 0)
      (Value example_assignment (NextVar (Start (example_model (example_manager 3 3 0)) v)))"
    "IndexToNode (example_manager 3 3 0)
      (Value example_assignment (NextVar (Start (example_model (example_manager 3 3 0)) v))) < 3"
    "IndexToNode (example_manager 3 3 0)
      (Value example_assignment (NextVar (Start (example_model (example_manager 3 3 0)) v))) \<noteq> 0"
    by (simp_all add: example_model_def example_manager_def example_assignment_def)
next
  fix v w :: int
  assume "0 \<le> v \<and> v < vehicles (example_model (example_manager 3 3 0)) \<and>
    0 \<le> w \<and> w < vehicles (example_model (example_manager 3 3 0)) \<and>
    \<not> IsEnd (example_model (example_manager 3 3 0))
        (Value example_assignment (NextVar (Start (example_model (example_manager 3 3 0)) v))) \<and>
    \<not> IsEnd (example_model (example_manager 3 3 0))
        (Value example_assignment (NextVar (Start (example_model (example_manager 3 3 0)) w))) \<and>
    IndexToNode (example_manager 3 3 0)
      (Value example_assignment (NextVar (Start (example_model (example_manager 3 3 0)) v))) =
    IndexToNode (example_manager 3 3 0)
      (Value example_assignment (NextVar (Start (example_model (example_manager 3 3 0)) w)))"
  then have "v = 0 \<and> w = 0"
    by (auto simp: example_model_def example_manager_def example_assignment_def
        split: if_splits)
  then show "v = w" by simp
qed simp_all

section \<open>Routes begin and end at the depot\<close>

text \<open>
  C5. When \<open>solve\<close> returns a solution and the index manager is that of a single depot,
  every route of the solution is non-empty, its first stop has the depot as node index
  and so has its last stop.
\<close>

theorem routes_start_and_end_at_depot:
  assumes "c = configure nodes distance_matrix demand depot_index vehicle_cap num_vehicles
             distance_constraint_int soft_distance_constrint_int soft_distance_penalty
             max_search_seconds"
    and "manager = RoutingIndexManager lib (NUM_NODES c) (NUM_VEHICLES c) depot_index"
    and "model = RoutingModel lib manager"
    and "single_depot manager model depot_index"
    and "solve lib nodes distance_matrix demand depot_index vehicle_cap num_vehicles
           distance_constraint_int soft_distance_constrint_int soft_distance_penalty
           max_search_seconds = Some (Inr (Solution solution))"
    and "route \<in> set solution"
  shows "route \<noteq> [] \<and> stop_idx (hd route) = depot_index \<and> stop_idx (last route) = depot_index"
proof -
  from solve_success [OF assms(5) assms(1) assms(2) assms(3)] obtain a where
    dec: "decode manager model a c = Some (Inr solution)" by blast
  from decode_route_walk [OF dec assms(6)] obtain v where
    v: "0 \<le> v" "v < vehicles model" and
    w: "walk manager model a c (IndexToNode manager (Start model v)) None
          (Start model v) [] = Some (Inr route)"
    by blast
  from walk_first [OF w] have ne: "route \<noteq> []" and
    f: "visit manager c (IndexToNode manager (Start model v)) (Start model v) = Inr (hd route)"
    by simp_all
  from visit_stop [OF f] v assms(4) have first: "stop_idx (hd route) = depot_index"
    by (simp add: single_depot_def)
  from walk_last [OF w refl] obtain e where e: "IsEnd model e"
    "visit manager c (IndexToNode manager (Start model v)) e = Inr (last route)"
    by blast
  from visit_stop [OF e(2)] e(1) assms(4) have "stop_idx (last route) = depot_index"
    by (simp add: single_depot_def)
  with ne first show ?thesis by simp
qed

theorem routes_start_and_end_at_depot_witness:
  "single_depot (example_manager 3 3 0) (example_model (example_manager 3 3 0)) 0 \<and>
   solve (example_lib (Some example_assignment)) example_nodes example_matrix [10, 10] 0 26
     (Some 3) 100000 None 100000 5 = Some (Inr (Solution [example_route])) \<and>
   example_route \<in> set [example_route] \<and>
   example_route \<noteq> [] \<and> stop_idx (hd example_route) = 0 \<and> stop_idx (last example_route) = 0"
  using routes_start_and_end_at_depot [OF refl refl refl _ example_solve, of example_route]
    example_single_depot example_solve
  by (simp add: example_config example_lib_simps)

section \<open>Routes respect the vehicle capacity\<close>

text \<open>
  C6. When \<open>solve\<close> returns a solution decoded from an assignment that respects the
  dimension \<open>Capacity\<close> of the model \<open>solve\<close> has built, the demands of the stops of every
  route, its last stop left out, sum to at most the vehicle capacity.
\<close>

theorem route_demand_within_capacity:
  assumes "c = configure nodes distance_matrix demand depot_index vehicle_cap num_vehicles
             distance_constraint_int soft_distance_constrint_int soft_distance_penalty
             max_search_seconds"
    and "manager = RoutingIndexManager lib (NUM_NODES c) (NUM_VEHICLES c) depot_index"
    and "model = RoutingModel lib manager"
    and "SolveWithParameters lib model (build_setup manager model c) = Some a"
    and "respects_named model a (build_setup manager model c) ''Capacity''"
    and "solve lib nodes distance_matrix demand depot_index vehicle_cap num_vehicles
           distance_constraint_int soft_distance_constrint_int soft_distance_penalty
           max_search_seconds = Some (Inr (Solution solution))"
    and "route \<in> set solution"
  shows "sum_list (map stop_demand (butlast route)) \<le> vehicle_cap"
proof -
  from solve_success [OF assms(6) assms(1) assms(2) assms(3)] assms(4) have
    dec: "decode manager model a c = Some (Inr solution)" by auto
  from decode_route_walk [OF dec assms(7)] obtain v where
    v: "0 \<le> v" "v < vehicles model" and
    w: "walk manager model a c (IndexToNode manager (Start model v)) None
          (Start model v) [] = Some (Inr route)"
    by blast
  have veh: "VEHICLES c = replicate (nat (NUM_VEHICLES c)) vehicle_cap"
    by (simp add: assms(1) configure_def Let_def map_py_range_const)
  note cap = respects_registered_capacity [OF assms(5) veh v]
  from walk_capacity [OF w refl on_route.at_start cap(2)] have
    "Value a (CumulVar ''Capacity'' (Start model v))
       + sum_list (map stop_demand (butlast route)) \<le> vehicle_cap"
    by simp
  with cap(1) show ?thesis by simp
qed

theorem route_demand_within_capacity_witness:
  "SolveWithParameters (example_lib (Some example_assignment))
     (example_model (example_manager 3 3 0))
     (build_setup (example_manager 3 3 0) (example_model (example_manager 3 3 0))
        (configure example_nodes example_matrix [10, 10] 0 26 (Some 3) 100000 None 100000 5))
     = Some example_assignment \<and>
   respects_named (example_model (example_manager 3 3 0)) example_assignment
     (build_setup (example_manager 3 3 0) (example_model (example_manager 3 3 0))
        (configure example_nodes example_matrix [10, 10] 0 26 (Some 3) 100000 None 100000 5))
     ''Capacity'' \<and>
   solve (example_lib (Some example_assignment)) example_nodes example_matrix [10, 10] 0 26
     (Some 3) 100000 None 100000 5 = Some (Inr (Solution [example_route])) \<and>
   example_route \<in> set [example_route] \<and>
   sum_list (map stop_demand (butlast example_route)) \<le> 26"
  using route_demand_within_capacity [OF refl refl refl _ _ example_solve,
      of example_assignment example_route]
    example_respects_capacity example_solve
  by (simp add: example_config example_lib_simps)

section \<open>Unused vehicles\<close>

text \<open>
  C7. Let \<open>solve\<close> return a solution decoded from the assignment \<open>a\<close>, with the index
  manager of a single depot. The iteration of the vehicle loop for a vehicle whose start
  position has its end position as successor leaves the solution as it is. The solution
  has one route for each vehicle whose start position has a successor that is not an end
  position, and none for the others; every route has at least three stops, so none is
  empty or made of the depot alone. When the routes of the assignment do not share
  customers, the solution has at most as many routes as there are nodes other than the
  depot, whatever the number of vehicles.
\<close>

theorem unused_vehicles_emit_no_route:
  assumes "c = configure nodes distance_matrix demand depot_index vehicle_cap num_vehicles
             distance_constraint_int soft_distance_constrint_int soft_distance_penalty
             max_search_seconds"
    and "manager = RoutingIndexManager lib (NUM_NODES c) (NUM_VEHICLES c) depot_index"
    and "model = RoutingModel lib manager"
    and "single_depot manager model depot_index"
    and "SolveWithParameters lib model (build_setup manager model c) = Some a"
    and "solve lib nodes distance_matrix demand depot_index vehicle_cap num_vehicles
           distance_constraint_int soft_distance_constrint_int soft_distance_penalty
           max_search_seconds = Some (Inr (Solution solution))"
  shows "(\<forall>v rest sol. 0 \<le> v \<and> v < vehicles model \<and>
            Value a (NextVar (Start model v)) = End model v \<longrightarrow>
            routes_loop manager model a c (v # rest) sol =
              routes_loop manager model a c rest sol) \<and>
         length solution =
           length (filter (\<lambda>v. \<not> IsEnd model (Value a (NextVar (Start model v))))
                     (py_range (vehicles model))) \<and>
         (\<forall>route \<in> set solution. 3 \<le> length route) \<and>
         (first_customers_distinct manager model a (NUM_NODES c) depot_index \<longrightarrow>
            int (length solution) \<le> NUM_NODES c - 1)"
proof (intro conjI allI impI ballI)
  fix v rest sol
  assume "0 \<le> v \<and> v < vehicles model \<and> Value a (NextVar (Start model v)) = End model v"
  with assms(4) have "IsEnd model (Value a (NextVar (Start model v)))"
    by (simp add: single_depot_def)
  then show "routes_loop manager model a c (v # rest) sol =
      routes_loop manager model a c rest sol"
    by simp
next
  from solve_success [OF assms(6) assms(1) assms(2) assms(3)] assms(5) have
    dec: "decode manager model a c = Some (Inr solution)" by auto
  from decode_routes [OF dec] have
    len: "length (used_vehicles model a (py_range (vehicles model))) = length solution"
    by (rule list_all2_lengthD)
  then show "length solution =
      length (filter (\<lambda>v. \<not> IsEnd model (Value a (NextVar (Start model v))))
                (py_range (vehicles model)))"
    by (simp add: used_vehicles_def)
  {
    fix route
    assume "route \<in> set solution"
    from decode_route_walk [OF dec this] obtain v where
      v: "0 \<le> v \<and> v < vehicles model"
      and used: "\<not> IsEnd model (Value a (NextVar (Start model v)))"
      and w: "walk manager model a c (IndexToNode manager (Start model v)) None
                (Start model v) [] = Some (Inr route)"
      by blast
    from v assms(4) have "\<not> IsEnd model (Start model v)"
      by (simp add: single_depot_def)
    from walk_three_stops [OF w this used] show "3 \<le> length route" .
  }
  {
    assume "first_customers_distinct manager model a (NUM_NODES c) depot_index"
    from used_vehicles_count [OF this] len
    show "int (length solution) \<le> NUM_NODES c - 1" by simp
  }
qed

theorem unused_vehicles_emit_no_route_witness:
  "single_depot (example_manager 3 3 0) (example_model (example_manager 3 3 0)) 0 \<and>
   SolveWithParameters (example_lib (Some example_assignment))
     (example_model (example_manager 3 3 0))
     (build_setup (example_manager 3 3 0) (example_model (example_manager 3 3 0))
        (configure example_nodes example_matrix [10, 10] 0 26 (Some 3) 100000 None 100000 5))
     = Some example_assignment \<and>
   solve (example_lib (Some example_assignment)) example_nodes example_matrix [10, 10] 0 26
     (Some 3) 100000 None 100000 5 = Some (Inr (Solution [example_route])) \<and>
   first_customers_distinct (example_manager 3 3 0) (example_model (example_manager 3 3 0))
     example_assignment 3 0 \<and>
   Value example_assignment (NextVar (Start (example_model (example_manager 3 3 0)) 1)) =
     End (example_model (example_manager 3 3 0)) 1 \<and>
   routes_loop (example_manager 3 3 0) (example_model (example_manager 3 3 0))
     example_assignment
     (configure example_nodes example_matrix [10, 10] 0 26 (Some 3) 100000 None 100000 5)
     [1] [] = Some (Inr []) \<and>
   3 \<le> length example_route \<and>
   int (length [example_route]) \<le> 3 - 1"
proof -
  let ?c = "configure example_nodes example_matrix [10, 10] 0 26 (Some 3) 100000 None 100000 5"
  let ?lib = "example_lib (Some example_assignment)"
  let ?manager = "RoutingIndexManager ?lib (NUM_NODES ?c) (NUM_VEHICLES ?c) 0"
  let ?model = "RoutingModel ?lib ?manager"
  have sd: "single_depot ?manager ?model 0"
    by (simp add: example_lib_simps example_config example_single_depot)
  have sw: "SolveWithParameters ?lib ?model (build_setup ?manager ?model ?c)
      = Some example_assignment"
    by (simp add: example_lib_simps)
  have fc: "first_customers_distinct ?manager ?model example_assignment (NUM_NODES ?c) 0"
    by (simp add: example_lib_simps example_config example_first_customers_distinct)
  have nx: "0 \<le> (1::int) \<and> 1 < vehicles ?model \<and>
      Value example_assignment (NextVar (Start ?model 1)) = End ?model 1"
    by (simp add: example_lib_simps example_config example_model_def example_manager_def
        example_assignment_def)
  note t = unused_vehicles_emit_no_route [OF refl refl refl sd sw example_solve]
  from t nx have "routes_loop ?manager ?model example_assignment ?c [1] [] =
      routes_loop ?manager ?model example_assignment ?c [] []"
    by blast
  moreover from t have "3 \<le> length example_route" by simp
  moreover from t fc have "int (length [example_route]) \<le> NUM_NODES ?c - 1" by blast
  ultimately show ?thesis
    using sd sw fc nx example_solve by (simp add: example_lib_simps example_config)
qed

section \<open>No assignment\<close>

text \<open>
  C4. When the search gives no assignment, \<open>solve\<close> returns, and what it returns is the
  no-solution value of its own: neither a solution with an empty list of routes nor an
  exception.
\<close>

theorem no_assignment_gives_no_solution:
  assumes "c = configure nodes distance_matrix demand depot_index vehicle_cap num_vehicles
             distance_constraint_int soft_distance_constrint_int soft_distance_penalty
             max_search_seconds"
    and "manager = RoutingIndexManager lib (NUM_NODES c) (NUM_VEHICLES c) depot_index"
    and "model = RoutingModel lib manager"
    and "SolveWithParameters lib model (build_setup manager model c) = None"
  shows "solve lib nodes distance_matrix demand depot_index vehicle_cap num_vehicles
           distance_constraint_int soft_distance_constrint_int soft_distance_penalty
           max_search_seconds = Some (Inr NoSolution) \<and>
         solve lib nodes distance_matrix demand depot_index vehicle_cap num_vehicles
           distance_constraint_int soft_distance_constrint_int soft_distance_penalty
           max_search_seconds \<noteq> Some (Inr (Solution [])) \<and>
         solve lib nodes distance_matrix demand depot_index vehicle_cap num_vehicles
           distance_constraint_int soft_distance_constrint_int soft_distance_penalty
           max_search_seconds \<noteq> Some (Inl IndexError)"
  using assms by (simp add: solve_def Let_def)

theorem no_assignment_gives_no_solution_witness:
  "SolveWithParameters (example_lib None) (example_model (example_manager 3 3 0))
     (build_setup (example_manager 3 3 0) (example_model (example_manager 3 3 0))
        (configure example_nodes example_matrix [10, 10] 0 5 (Some 3) 100000 None 100000 5))
     = None \<and>
   solve (example_lib None) example_nodes example_matrix [10, 10] 0 5 (Some 3) 100000 None
     100000 5 = Some (Inr NoSolution)"
  using no_assignment_gives_no_solution [where lib = "example_lib None"
      and nodes = example_nodes and distance_matrix = example_matrix and demand = "[10, 10]"
      and depot_index = 0 and vehicle_cap = 5 and num_vehicles = "Some 3"
      and distance_constraint_int = 100000 and soft_distance_constrint_int = None
      and soft_distance_penalty = 100000 and max_search_seconds = 5, OF refl refl refl]
  by (simp add: example_lib_simps)

section \<open>Padding the demand\<close>

text \<open>
  C8. For a demand vector with one entry less than the distance matrix has rows, \<open>solve\<close>
  gives the same result as for the vector with a 0 prepended, all other arguments being
  equal; the vehicle count that an omitted \<open>num_vehicles\<close> resolves to is the same too,
  namely the number of entries of the shorter vector.
\<close>

theorem demand_padding_idempotent:
  assumes "int (length demand) = int (length distance_matrix) - 1"
  shows "solve lib nodes distance_matrix demand depot_index vehicle_cap num_vehicles
           distance_constraint_int soft_distance_constrint_int soft_distance_penalty
           max_search_seconds =
         solve lib nodes distance_matrix (0 # demand) depot_index vehicle_cap num_vehicles
           distance_constraint_int soft_distance_constrint_int soft_distance_penalty
           max_search_seconds \<and>
         NUM_VEHICLES (configure nodes distance_matrix demand depot_index vehicle_cap None
           distance_constraint_int soft_distance_constrint_int soft_distance_penalty
           max_search_seconds) = int (length demand) \<and>
         NUM_VEHICLES (configure nodes distance_matrix (0 # demand) depot_index vehicle_cap None
           distance_constraint_int soft_distance_constrint_int soft_distance_penalty
           max_search_seconds) = int (length demand)"
  by (simp add: solve_def configure_def pad_demand_prepended [OF assms]
      resolve_num_vehicles_def Let_def)

theorem demand_padding_idempotent_witness:
  "int (length [10, 10 :: int]) = int (length example_matrix) - 1 \<and>
   solve (example_lib (Some example_assignment)) example_nodes example_matrix [0, 10, 10] 0 26
     (Some 3) 100000 None 100000 5 = Some (Inr (Solution [example_route]))"
  using demand_padding_idempotent [of "[10, 10]" example_matrix
      "example_lib (Some example_assignment)" example_nodes 0 26 "Some 3" 100000 None 100000 5]
    example_solve
  by (simp add: example_matrix_def)

section \<open>Zero as an optional argument\<close>

text \<open>
  C10. \<open>solve\<close> with \<open>num_vehicles = 0\<close> is \<open>solve\<close> without \<open>num_vehicles\<close>, and \<open>solve\<close> with
  \<open>soft_distance_constrint_int = 0\<close> is \<open>solve\<close> without it: the vehicle count resolves to
  the number of demand entries after the first, and the soft bound to its computed
  default.
\<close>

theorem zero_is_the_omitted_argument:
  "solve lib nodes distance_matrix demand depot_index vehicle_cap (Some 0)
     distance_constraint_int soft_distance_constrint_int soft_distance_penalty
     max_search_seconds =
   solve lib nodes distance_matrix demand depot_index vehicle_cap None
     distance_constraint_int soft_distance_constrint_int soft_distance_penalty
     max_search_seconds \<and>
   solve lib nodes distance_matrix demand depot_index vehicle_cap num_vehicles
     distance_constraint_int (Some 0) soft_distance_penalty max_search_seconds =
   solve lib nodes distance_matrix demand depot_index vehicle_cap num_vehicles
     distance_constraint_int None soft_distance_penalty max_search_seconds \<and>
   NUM_VEHICLES (configure nodes distance_matrix demand depot_index vehicle_cap (Some 0)
     distance_constraint_int soft_distance_constrint_int soft_distance_penalty
     max_search_seconds) = int (length (drop 1 (pad_demand distance_matrix demand))) \<and>
   SOFT_DISTANCE_CONSTRAINT (configure nodes distance_matrix demand depot_index vehicle_cap
     num_vehicles distance_constraint_int (Some 0) soft_distance_penalty max_search_seconds) =
     int_times_075 distance_constraint_int"
  by (simp add: solve_def configure_def resolve_num_vehicles_def resolve_soft_distance_def
      Let_def)

section \<open>The soft distance bound\<close>

text \<open>
  C2. With a hard bound of 100000 and a soft bound of 500 given by the caller, the soft
  upper bound that \<open>solve\<close> sets at the end position of each of the three vehicles is
  100000, the hard bound, and not 500: line 87 assigns \<open>distance_constraint_int\<close>. With
  the soft bound omitted it is 75000.
\<close>

theorem soft_bound_is_the_hard_bound:
  "SOFT_DISTANCE_CONSTRAINT (configure example_nodes example_matrix [10, 10] 0 26 (Some 3)
     100000 (Some 500) 7 5) = 100000 \<and>
   soft_upper_bounds
     (build_setup (example_manager 3 3 0) (example_model (example_manager 3 3 0))
        (configure example_nodes example_matrix [10, 10] 0 26 (Some 3) 100000 (Some 500) 7 5)) =
     [(''Distance'', 5, 100000, 7), (''Distance'', 6, 100000, 7), (''Distance'', 7, 100000, 7)]
   \<and> SOFT_DISTANCE_CONSTRAINT (configure example_nodes example_matrix [10, 10] 0 26 (Some 3)
     100000 None 7 5) = 75000"
  by (simp add: configure_def resolve_soft_distance_def build_setup_def example_manager_def
      example_model_def py_range_def upto.simps int_times_075_def Let_def)

section \<open>The incremental distance\<close>

text \<open>
  C1. On the route depot, node 1, node 2, depot of the small instance, the distances of
  the four stops are 0, 5, 7 and 0: each is the distance from the depot to the stop's
  node, because line 177 assigns \<open>prev_node\<close> and line 170 reads \<open>prev_node_index\<close>, which
  keeps its first value. The distance from node 1 to node 2 is 2 and from node 2 to the
  depot is 7.
\<close>

theorem dist_is_measured_from_the_depot:
  "solve (example_lib (Some example_assignment)) example_nodes example_matrix [10, 10] 0 26
     (Some 3) 100000 None 100000 5 =
   Some (Inr (Solution [
    [\<lparr>stop_idx = 0, stop_lat = 0, stop_lon = 0, stop_demand = 0, stop_dist = 0\<rparr>,
     \<lparr>stop_idx = 1, stop_lat = 1, stop_lon = 0, stop_demand = 10, stop_dist = 5\<rparr>,
     \<lparr>stop_idx = 2, stop_lat = 0, stop_lon = 1, stop_demand = 10, stop_dist = 7\<rparr>,
     \<lparr>stop_idx = 0, stop_lat = 0, stop_lon = 0, stop_demand = 0, stop_dist = 0\<rparr>] ])) \<and>
   py_index example_matrix 1 = Inr [5, 0, 2] \<and> py_index [5, 0, 2 :: int] 2 = Inr 2 \<and>
   py_index example_matrix 2 = Inr [7, 2, 0] \<and> py_index [7, 2, 0 :: int] 0 = Inr 7"
  using example_solve by (simp add: example_route_def example_matrix_def py_index_def)

section \<open>Validation\<close>

text \<open>
  C3, as the claim states it, fails: with a vehicle capacity of 0, demands of 10 and a
  search that finds no assignment, \<open>solve\<close> raises nothing and returns the no-solution
  value; and a vehicle count of 0 is taken for the omitted count, two vehicles here.
\<close>

theorem zero_capacity_not_rejected:
  "solve (example_lib None) example_nodes example_matrix [10, 10] 0 0 (Some 3) 100000 None
     100000 5 = Some (Inr NoSolution) \<and>
   NUM_VEHICLES (configure example_nodes example_matrix [10, 10] 0 26 (Some 0) 100000 None
     100000 5) = 2"
  by (simp add: solve_def configure_def example_lib_simps resolve_num_vehicles_def
      pad_demand_def example_matrix_def Let_def)

text \<open>
  C3, amended. \<open>solve\<close> has no validation of its own and no configuration error. With the
  hard bound in the range of \<open>int_times_075\<close> when the soft bound is computed from it, and
  for calls of the library that return, whatever the vehicle capacity, the vehicle count
  and the distance matrix are:
  \<^item> the index manager is built for the count as given, a count of 0 standing for the
    omitted count;
  \<^item> the dimension \<open>Capacity\<close> is registered with the capacity as given, once per vehicle,
    and the dimension \<open>Distance\<close> and the arc cost with a callback that reads the matrix as
    given, with no check of its shape or of the sign of its entries;
  \<^item> the search is invoked on that model, and the outcome of the call is the outcome of
    the search: the no-solution value when it finds no assignment, and what decoding the
    assignment gives otherwise.
\<close>

theorem solve_validates_nothing:
  assumes "c = configure nodes distance_matrix demand depot_index vehicle_cap num_vehicles
             distance_constraint_int soft_distance_constrint_int soft_distance_penalty
             max_search_seconds"
    and "manager = RoutingIndexManager lib (NUM_NODES c) (NUM_VEHICLES c) depot_index"
    and "model = RoutingModel lib manager"
    and "py_not soft_distance_constrint_int \<longrightarrow> 3 * \<bar>distance_constraint_int\<bar> < 2 ^ 53"
  shows "NUM_NODES c = int (length distance_matrix) \<and>
         NUM_VEHICLES c =
           (case num_vehicles of
              None \<Rightarrow> int (length (drop 1 (pad_demand distance_matrix demand)))
            | Some n \<Rightarrow>
                if n = 0 then int (length (drop 1 (pad_demand distance_matrix demand))) else n) \<and>
         dimensions (build_setup manager model c) =
           [Dimension (Binary (matrix_callback manager c)) 0
              (replicate (nat (NUM_VEHICLES c)) distance_constraint_int) True ''Distance'',
            Dimension (Unary (demand_callback manager c)) 0
              (replicate (nat (NUM_VEHICLES c)) vehicle_cap) True ''Capacity''] \<and>
         arc_cost_evaluator (build_setup manager model c) = Binary (matrix_callback manager c) \<and>
         (\<forall>i j. matrix_callback manager c i j =
            (case py_index distance_matrix (IndexToNode manager i) of
               Inl e \<Rightarrow> Inl e
             | Inr row \<Rightarrow> py_index row (IndexToNode manager j))) \<and>
         (SolveWithParameters lib model (build_setup manager model c) = None \<longrightarrow>
            solve lib nodes distance_matrix demand depot_index vehicle_cap num_vehicles
              distance_constraint_int soft_distance_constrint_int soft_distance_penalty
              max_search_seconds = Some (Inr NoSolution)) \<and>
         (\<forall>a. SolveWithParameters lib model (build_setup manager model c) = Some a \<longrightarrow>
            solve lib nodes distance_matrix demand depot_index vehicle_cap num_vehicles
              distance_constraint_int soft_distance_constrint_int soft_distance_penalty
              max_search_seconds =
            (case decode manager model a c of
               None \<Rightarrow> None
             | Some (Inl e) \<Rightarrow> Some (Inl e)
             | Some (Inr solution) \<Rightarrow> Some (Inr (Solution solution))))"
proof (intro conjI allI impI)
  show "NUM_NODES c = int (length distance_matrix)"
    by (simp add: assms(1) configure_def Let_def)
  show "NUM_VEHICLES c =
      (case num_vehicles of
         None \<Rightarrow> int (length (drop 1 (pad_demand distance_matrix demand)))
       | Some n \<Rightarrow>
           if n = 0 then int (length (drop 1 (pad_demand distance_matrix demand))) else n)"
    by (simp add: assms(1) configure_def Let_def resolve_num_vehicles_def split: option.splits)
  have "DISTANCE_CONSTRAINT c = distance_constraint_int"
    and "VEHICLES c = replicate (nat (NUM_VEHICLES c)) vehicle_cap"
    by (simp_all add: assms(1) configure_def Let_def map_py_range_const)
  then show "dimensions (build_setup manager model c) =
      [Dimension (Binary (matrix_callback manager c)) 0
         (replicate (nat (NUM_VEHICLES c)) distance_constraint_int) True ''Distance'',
       Dimension (Unary (demand_callback manager c)) 0
         (replicate (nat (NUM_VEHICLES c)) vehicle_cap) True ''Capacity'']"
    by (simp add: build_setup_def map_py_range_const)
  show "arc_cost_evaluator (build_setup manager model c) = Binary (matrix_callback manager c)"
    by (simp add: build_setup_def)
next
  fix i j
  have "DISTANCE_MATRIX c = distance_matrix"
    by (simp add: assms(1) configure_def Let_def)
  then show "matrix_callback manager c i j =
      (case py_index distance_matrix (IndexToNode manager i) of
         Inl e \<Rightarrow> Inl e
       | Inr row \<Rightarrow> py_index row (IndexToNode manager j))"
    by (simp add: matrix_callback_def Let_def)
next
  assume "SolveWithParameters lib model (build_setup manager model c) = None"
  with assms(1-3) show "solve lib nodes distance_matrix demand depot_index vehicle_cap
      num_vehicles distance_constraint_int soft_distance_constrint_int soft_distance_penalty
      max_search_seconds = Some (Inr NoSolution)"
    by (simp add: solve_def Let_def)
next
  fix a
  assume "SolveWithParameters lib model (build_setup manager model c) = Some a"
  with assms(1-3) show "solve lib nodes distance_matrix demand depot_index vehicle_cap
      num_vehicles distance_constraint_int soft_distance_constrint_int soft_distance_penalty
      max_search_seconds =
      (case decode manager model a c of
         None \<Rightarrow> None
       | Some (Inl e) \<Rightarrow> Some (Inl e)
       | Some (Inr solution) \<Rightarrow> Some (Inr (Solution solution)))"
    by (simp add: solve_def Let_def)
qed

theorem solve_validates_nothing_witness:
  "py_not None \<and> 3 * \<bar>100000 :: int\<bar> < 2 ^ 53 \<and>
   SolveWithParameters (example_lib None) (example_model (example_manager 3 3 0))
     (build_setup (example_manager 3 3 0) (example_model (example_manager 3 3 0))
        (configure example_nodes example_matrix [10, 10] 0 0 (Some 3) 100000 None 100000 5))
     = None \<and>
   solve (example_lib None) example_nodes example_matrix [10, 10] 0 0 (Some 3) 100000 None
     100000 5 = Some (Inr NoSolution) \<and>
   dimensions
     (build_setup (example_manager 3 3 0) (example_model (example_manager 3 3 0))
        (configure example_nodes example_matrix [10, 10] 0 0 (Some 3) 100000 None 100000 5)) =
     [Dimension (Binary (matrix_callback (example_manager 3 3 0)
          (configure example_nodes example_matrix [10, 10] 0 0 (Some 3) 100000 None 100000 5)))
        0 [100000, 100000, 100000] True ''Distance'',
      Dimension (Unary (demand_callback (example_manager 3 3 0)
          (configure example_nodes example_matrix [10, 10] 0 0 (Some 3) 100000 None 100000 5)))
        0 [0, 0, 0] True ''Capacity''] \<and>
   SolveWithParameters (example_lib (Some example_assignment))
     (example_model (example_manager 3 3 0))
     (build_setup (example_manager 3 3 0) (example_model (example_manager 3 3 0))
        (configure example_nodes example_matrix [10, 10] 0 26 (Some 3) 100000 None 100000 5))
     = Some example_assignment \<and>
   decode (example_manager 3 3 0) (example_model (example_manager 3 3 0)) example_assignment
     (configure example_nodes example_matrix [10, 10] 0 26 (Some 3) 100000 None 100000 5)
     = Some (Inr [example_route])"
proof -
  have r: "py_not None \<longrightarrow> 3 * \<bar>100000 :: int\<bar> < 2 ^ 53" by simp
  note t1 = solve_validates_nothing [where lib = "example_lib None"
      and nodes = example_nodes and distance_matrix = example_matrix and demand = "[10, 10]"
      and depot_index = 0 and vehicle_cap = 0 and num_vehicles = "Some 3"
      and distance_constraint_int = 100000 and soft_distance_constrint_int = None
      and soft_distance_penalty = 100000 and max_search_seconds = 5, OF refl refl refl r]
  note t2 = solve_validates_nothing [where lib = "example_lib (Some example_assignment)"
      and nodes = example_nodes and distance_matrix = example_matrix and demand = "[10, 10]"
      and depot_index = 0 and vehicle_cap = 26 and num_vehicles = "Some 3"
      and distance_constraint_int = 100000 and soft_distance_constrint_int = None
      and soft_distance_penalty = 100000 and max_search_seconds = 5, OF refl refl refl r]
  have n: "NUM_VEHICLES (configure example_nodes example_matrix [10, 10] 0 0 (Some 3) 100000
      None 100000 5) = 3"
    "NUM_NODES (configure example_nodes example_matrix [10, 10] 0 0 (Some 3) 100000
      None 100000 5) = 3"
    by (simp_all add: configure_def resolve_num_vehicles_def example_matrix_def Let_def)
  from t1 have "solve (example_lib None) example_nodes example_matrix [10, 10] 0 0 (Some 3)
      100000 None 100000 5 = Some (Inr NoSolution)"
    by (simp add: example_lib_simps)
  moreover from t1 have "dimensions
     (build_setup (example_manager 3 3 0) (example_model (example_manager 3 3 0))
        (configure example_nodes example_matrix [10, 10] 0 0 (Some 3) 100000 None 100000 5)) =
     [Dimension (Binary (matrix_callback (example_manager 3 3 0)
          (configure example_nodes example_matrix [10, 10] 0 0 (Some 3) 100000 None 100000 5)))
        0 [100000, 100000, 100000] True ''Distance'',
      Dimension (Unary (demand_callback (example_manager 3 3 0)
          (configure example_nodes example_matrix [10, 10] 0 0 (Some 3) 100000 None 100000 5)))
        0 [0, 0, 0] True ''Capacity'']"
    by (simp add: example_lib_simps n numeral_3_eq_3)
  moreover from t2 example_solve have
    "decode (example_manager 3 3 0) (example_model (example_manager 3 3 0)) example_assignment
       (configure example_nodes example_matrix [10, 10] 0 26 (Some 3) 100000 None 100000 5)
       = Some (Inr [example_route])"
    by (simp add: example_lib_simps example_config split: option.splits sum.splits)
  ultimately show ?thesis
    by (simp add: example_lib_simps)
qed

end
